theory Spec2Isabelle
  imports Complex_Main "HOL-Library.Char_ord" "HOL-Library.List_Lexorder"
begin

section \<open>Performance regression tool: data model\<close>

text \<open>
  The development embeds \<^verbatim>\<open>performance_regression_tool_2.ipynb\<close>. A time is a
  float64 number in the notebook and is modelled by the real number that the double
  denotes. The arithmetic of \<^verbatim>\<open>detect_regression\<close> and of
  \<^verbatim>\<open>measure_performance\<close> is float64 arithmetic and is modelled with its rounding,
  its infinities and NaN (section Float64 arithmetic); the summation routines of the
  libraries, whose order of additions is theirs to choose, are parameters. The group
  means of \<^verbatim>\<open>record_performance\<close> are taken over the reals; the theorems about
  recording use them on groups of one row and on example values, where float64 computes
  the same numbers.

  The baseline CSV is a table of four columns: \<open>timestamp, compile_time, run_time, flags\<close>.
  A row of the file holds the two text cells as written; a row of a pandas DataFrame holds
  them as \<open>string option\<close>, where \<open>None\<close> is the missing value (NaN) that
  \<^verbatim>\<open>pd.read_csv\<close> produces for an empty cell or one of its default NA tokens.
  A numeric cell of the file is modelled by the number that \<^verbatim>\<open>read_csv\<close> returns
  for it, and \<^verbatim>\<open>to_csv\<close> is taken to write a number that is read back unchanged.
  Numeric cells always hold a number (no NaN and no negative zero), and text cells that
  \<^verbatim>\<open>read_csv\<close> would re-type (a column of digits only) are outside the model.
\<close>

record csv_row =
  csv_timestamp :: string
  csv_compile_time :: real
  csv_run_time :: real
  csv_flags :: string

record row =
  timestamp :: "string option"
  compile_time :: real
  run_time :: real
  flags :: "string option"

text \<open>The file system maps a path to the rows of the CSV file stored there, if any.\<close>

type_synonym filesystem = "string \<rightharpoonup> csv_row list"

subsection \<open>Configuration section\<close>

definition COMPILER :: string where
  "COMPILER = ''clang''"

definition TEST_C_FILE :: string where
  "TEST_C_FILE = ''fibonacci.c''"

definition BASELINE_FLAGS :: "string list" where
  "BASELINE_FLAGS = [''-O2'']"

definition REGRESSION_FLAGS :: "string list" where
  "REGRESSION_FLAGS = [''-O0'']"

definition OUTPUT_BINARY :: string where
  "OUTPUT_BINARY = ''fib_test''"

definition BASELINE_CSV :: string where
  "BASELINE_CSV = ''baseline_performance.csv''"

text \<open>The double that the literal \<^verbatim>\<open>0.05\<close> denotes.\<close>

definition REGRESSION_THRESHOLD_RATIO :: real where
  "REGRESSION_THRESHOLD_RATIO = 3602879701896397 / 72057594037927936"


subsection \<open>Reading and writing the CSV\<close>

text \<open>
  The strings that \<^verbatim>\<open>pd.read_csv\<close> reads as a missing value when called, as here,
  without \<^verbatim>\<open>na_values\<close> or \<^verbatim>\<open>keep_default_na\<close>.
\<close>

definition na_values :: "string list" where
  "na_values =
     ['''', ''#N/A'', ''#N/A N/A'', ''#NA'', ''-1.#IND'', ''-1.#QNAN'', ''-NaN'', ''-nan'',
      ''1.#IND'', ''1.#QNAN'', ''<NA>'', ''N/A'', ''NA'', ''NULL'', ''NaN'', ''None'',
      ''n/a'', ''nan'', ''null'']"

definition read_cell :: "string \<Rightarrow> string option" where
  "read_cell s = (if s \<in> set na_values then None else Some s)"

text \<open>\<^verbatim>\<open>to_csv\<close> writes a missing value as the empty cell.\<close>

definition write_cell :: "string option \<Rightarrow> string" where
  "write_cell c = (case c of None \<Rightarrow> [] | Some s \<Rightarrow> s)"

definition read_row :: "csv_row \<Rightarrow> row" where
  "read_row r =
     \<lparr>timestamp = read_cell (csv_timestamp r), compile_time = csv_compile_time r,
      run_time = csv_run_time r, flags = read_cell (csv_flags r)\<rparr>"

definition write_row :: "row \<Rightarrow> csv_row" where
  "write_row r =
     \<lparr>csv_timestamp = write_cell (timestamp r), csv_compile_time = compile_time r,
      csv_run_time = run_time r, csv_flags = write_cell (flags r)\<rparr>"

text \<open>
  \<^verbatim>\<open>load_baseline_data\<close>: the rows of the file when it exists, the empty DataFrame
  otherwise. It only reads the file system.
\<close>

definition load_baseline_data :: "filesystem \<Rightarrow> string \<Rightarrow> row list" where
  "load_baseline_data fs baseline_csv =
     (case fs baseline_csv of
        Some rows \<Rightarrow> map read_row rows
      | None \<Rightarrow> [])"

text \<open>\<^verbatim>\<open>save_baseline_data\<close> replaces the file by the rows of the DataFrame.\<close>

definition save_baseline_data :: "row list \<Rightarrow> string \<Rightarrow> filesystem \<Rightarrow> filesystem" where
  "save_baseline_data df baseline_csv fs = fs(baseline_csv \<mapsto> map write_row df)"

section \<open>Float64 arithmetic\<close>

text \<open>
  The values of a float64: the finite numbers, where \<open>Finite 0\<close> is the positive zero,
  the negative zero, the two infinities and NaN.
\<close>

datatype float64 = Finite real | NegZero | PosInf | NegInf | NaN

definition pow2 :: "int \<Rightarrow> real" where
  "pow2 e = (if 0 \<le> e then 2 ^ nat e else 1 / 2 ^ nat (- e))"

text \<open>The nearest integer, the even one of the two when they are equally near.\<close>

definition round_half_even :: "real \<Rightarrow> int" where
  "round_half_even x =
     (let f = \<lfloor>x\<rfloor>; d = x - real_of_int f
      in if d < 1 / 2 then f else if 1 / 2 < d then f + 1 else if even f then f else f + 1)"

text \<open>
  \<open>round_at k x\<close> rounds \<open>x\<close> to a multiple of \<open>2 ^ (k - 52)\<close>, the spacing of the
  doubles between \<open>2 ^ k\<close> and \<open>2 ^ (k + 1)\<close>. A result of magnitude \<open>2 ^ 1024\<close>
  overflows to an infinity, and a result of zero keeps the sign of \<open>x\<close>.
\<close>

definition round_at :: "int \<Rightarrow> real \<Rightarrow> float64" where
  "round_at k x =
     (let u = pow2 (k - 52); y = real_of_int (round_half_even (x / u)) * u
      in if pow2 1024 \<le> \<bar>y\<bar> then (if 0 < x then PosInf else NegInf)
         else if y = 0 then (if x < 0 then NegZero else Finite 0)
         else Finite y)"

text \<open>
  The double nearest to a real number, ties to even (the rounding of IEEE 754 that
  Python and numpy use). The exponent \<open>k\<close> is that of \<open>x\<close>, and \<open>-1022\<close> for the
  subnormal numbers.
\<close>

definition round64 :: "real \<Rightarrow> float64" where
  "round64 x = (if x = 0 then Finite 0 else round_at (max \<lfloor>log 2 \<bar>x\<bar>\<rfloor> (- 1022)) x)"

fun value_of :: "float64 \<Rightarrow> real" where
  "value_of (Finite r) = r"
| "value_of NegZero = 0"
| "value_of PosInf = 0"
| "value_of NegInf = 0"
| "value_of NaN = 0"

fun is_number :: "float64 \<Rightarrow> bool" where
  "is_number (Finite r) = True"
| "is_number NegZero = True"
| "is_number PosInf = False"
| "is_number NegInf = False"
| "is_number NaN = False"

fun sign_bit :: "float64 \<Rightarrow> bool" where
  "sign_bit (Finite r) = (r < 0)"
| "sign_bit NegZero = True"
| "sign_bit PosInf = False"
| "sign_bit NegInf = True"
| "sign_bit NaN = False"

text \<open>
  Addition, subtraction and division of two float64 values: the exact result, rounded.
  An exact zero is the positive zero unless the rule of signs says otherwise. No
  operation raises; this is the division of numpy, and that of Python for a divisor
  that is not zero.
\<close>

definition float_add :: "float64 \<Rightarrow> float64 \<Rightarrow> float64" where
  "float_add a b =
     (if a = NaN \<or> b = NaN then NaN
      else if is_number a \<and> is_number b then
        (if value_of a + value_of b \<noteq> 0 then round64 (value_of a + value_of b)
         else if a = NegZero \<and> b = NegZero then NegZero
         else Finite 0)
      else if is_number a then b
      else if is_number b then a
      else if a = b then a
      else NaN)"

definition float_sub :: "float64 \<Rightarrow> float64 \<Rightarrow> float64" where
  "float_sub a b =
     (if a = NaN \<or> b = NaN then NaN
      else if is_number a \<and> is_number b then
        (if value_of a - value_of b \<noteq> 0 then round64 (value_of a - value_of b)
         else if a = NegZero \<and> b \<noteq> NegZero then NegZero
         else Finite 0)
      else if is_number a then (if b = PosInf then NegInf else PosInf)
      else if is_number b then a
      else if a = b then NaN
      else a)"

definition float_div :: "float64 \<Rightarrow> float64 \<Rightarrow> float64" where
  "float_div a b =
     (if a = NaN \<or> b = NaN then NaN
      else if \<not> is_number a then
        (if \<not> is_number b then NaN
         else if sign_bit a \<noteq> sign_bit b then NegInf
         else PosInf)
      else if \<not> is_number b then (if sign_bit a \<noteq> sign_bit b then NegZero else Finite 0)
      else if value_of b = 0 then
        (if value_of a = 0 then NaN
         else if sign_bit a \<noteq> sign_bit b then NegInf
         else PosInf)
      else if value_of a = 0 then (if sign_bit a \<noteq> sign_bit b then NegZero else Finite 0)
      else round64 (value_of a / value_of b))"

text \<open>\<open>q > t\<close> for a finite \<open>t\<close>. Comparisons do not round, and with NaN they are false.\<close>

definition fgt :: "float64 \<Rightarrow> real \<Rightarrow> bool" where
  "fgt q t =
     (case q of
        Finite r \<Rightarrow> t < r
      | NegZero \<Rightarrow> t < 0
      | PosInf \<Rightarrow> True
      | NegInf \<Rightarrow> False
      | NaN \<Rightarrow> False)"

section \<open>Regression detection\<close>

definition nl :: string where
  "nl = [CHR 0x0A]"

text \<open>
  \<^verbatim>\<open>Series.mean()\<close> of a column without missing cells: the sum of the column, which
  numpy computes in an order of its own and which is the parameter \<open>np_sum\<close>, divided by
  the number of cells.
\<close>

definition series_mean :: "(real list \<Rightarrow> float64) \<Rightarrow> real list \<Rightarrow> float64" where
  "series_mean np_sum xs = float_div (np_sum xs) (Finite (real (length xs)))"

text \<open>
  \<^verbatim>\<open>detect_regression\<close>. The threshold is the global \<open>REGRESSION_THRESHOLD_RATIO\<close>,
  passed here as \<open>threshold\<close>; \<open>fmt\<close> is the float format \<^verbatim>\<open>:.4f\<close> of the messages.
  The function returns its pair together with the file system it leaves behind.
\<close>

definition detect_regression ::
  "(real list \<Rightarrow> float64) \<Rightarrow> (float64 \<Rightarrow> string) \<Rightarrow> real \<Rightarrow> float64 \<Rightarrow> float64 \<Rightarrow> string
     \<Rightarrow> filesystem \<Rightarrow> (bool \<times> string) \<times> filesystem" where
  "detect_regression np_sum fmt threshold new_compile_time new_run_time baseline_csv fs =
     (let df = load_baseline_data fs baseline_csv in
      if length df = 0 then ((False, ''No baseline data exists yet.''), fs)
      else
        let avg_compile_time = series_mean np_sum (map compile_time df);
            avg_run_time = series_mean np_sum (map run_time df);
            compile_regression =
              fgt (float_div (float_sub new_compile_time avg_compile_time) avg_compile_time)
                threshold;
            run_regression =
              fgt (float_div (float_sub new_run_time avg_run_time) avg_run_time) threshold
        in if compile_regression \<or> run_regression then
             ((True,
               ''WARNING: Regression detected!'' @ nl @
               ''Compile time changed from avg '' @ fmt avg_compile_time @ ''s to '' @
                 fmt new_compile_time @ ''s.'' @ nl @
               ''Run time changed from avg '' @ fmt avg_run_time @ ''s to '' @
                 fmt new_run_time @ ''s.'' @ nl), fs)
           else
             ((False,
               ''No significant regression.'' @ nl @
               ''Compile time: '' @ fmt new_compile_time @ ''s (avg '' @
                 fmt avg_compile_time @ ''s)'' @ nl @
               ''Run time: '' @ fmt new_run_time @ ''s (avg '' @
                 fmt avg_run_time @ ''s)'' @ nl), fs))"

section \<open>Compiling and running the benchmark\<close>

text \<open>
  The outside world of the sampler is the sequence of \<^verbatim>\<open>subprocess.run\<close> calls made
  so far, oldest first. A \<open>runner\<close> stands for the operating system: given what has run
  before and the command, it answers with the exception that \<^verbatim>\<open>check=True\<close> raises,
  or with the seconds that \<^verbatim>\<open>time.time()\<close> measures around the call. The text that
  \<^verbatim>\<open>run_program\<close> prints is not part of the model.
\<close>

datatype error = CalledProcessError | OSError | ZeroDivisionError

type_synonym command = "string list"

type_synonym world = "command list"

type_synonym runner = "world \<Rightarrow> command \<Rightarrow> error + real"

definition compile_cmd :: "string \<Rightarrow> string list \<Rightarrow> string \<Rightarrow> string \<Rightarrow> command" where
  "compile_cmd compiler fl source_file output_file =
     [compiler] @ fl @ [source_file, ''-o'', output_file]"

definition compile_program ::
  "runner \<Rightarrow> string \<Rightarrow> string list \<Rightarrow> string \<Rightarrow> string \<Rightarrow> world \<Rightarrow> (error + real) \<times> world" where
  "compile_program run compiler fl source_file output_file w =
     (let cmd = compile_cmd compiler fl source_file output_file
      in (run w cmd, w @ [cmd]))"

definition run_cmd :: "string \<Rightarrow> command" where
  "run_cmd output_file = [''./'' @ output_file]"

definition run_program :: "runner \<Rightarrow> string \<Rightarrow> world \<Rightarrow> (error + real) \<times> world" where
  "run_program run output_file w =
     (let cmd = run_cmd output_file in (run w cmd, w @ [cmd]))"

text \<open>
  The \<^verbatim>\<open>for _ in range(NUM_RUNS)\<close> loop of \<^verbatim>\<open>measure_performance\<close>, with the
  number of iterations left and the two lists it appends to. An exception leaves the loop.
\<close>

fun measure_loop ::
  "runner \<Rightarrow> string \<Rightarrow> string list \<Rightarrow> nat \<Rightarrow> real list \<Rightarrow> real list \<Rightarrow> world
     \<Rightarrow> (error + real list \<times> real list) \<times> world" where
  "measure_loop run compiler fl 0 compile_times run_times w =
     (Inr (compile_times, run_times), w)"
| "measure_loop run compiler fl (Suc k) compile_times run_times w =
     (case compile_program run compiler fl TEST_C_FILE OUTPUT_BINARY w of
        (Inl e, w1) \<Rightarrow> (Inl e, w1)
      | (Inr ctime, w1) \<Rightarrow>
          (case run_program run OUTPUT_BINARY w1 of
             (Inl e, w2) \<Rightarrow> (Inl e, w2)
           | (Inr rtime, w2) \<Rightarrow>
               measure_loop run compiler fl k
                 (compile_times @ [ctime]) (run_times @ [rtime]) w2))"

text \<open>
  \<^verbatim>\<open>sum(xs) / len(xs)\<close>: Python raises ZeroDivisionError on the empty list. On any
  other it divides the float that \<^verbatim>\<open>sum\<close> returns, the parameter \<open>py_sum\<close> (the
  additions are rounded one by one up to Python 3.11 and compensated from 3.12 on), by
  the length.
\<close>

definition py_average :: "(real list \<Rightarrow> float64) \<Rightarrow> real list \<Rightarrow> error + float64" where
  "py_average py_sum xs =
     (if length xs = 0 then Inl ZeroDivisionError
      else Inr (float_div (py_sum xs) (Finite (real (length xs)))))"

text \<open>
  \<^verbatim>\<open>measure_performance\<close>, with the global \<open>NUM_RUNS\<close> passed as \<open>num_runs\<close>:
  \<^verbatim>\<open>range(num_runs)\<close> has \<open>nat num_runs\<close> elements, none for \<open>num_runs \<le> 0\<close>.
\<close>

definition measure_performance ::
  "(real list \<Rightarrow> float64) \<Rightarrow> runner \<Rightarrow> int \<Rightarrow> string \<Rightarrow> string list \<Rightarrow> world
     \<Rightarrow> (error + float64 \<times> float64) \<times> world" where
  "measure_performance py_sum run num_runs compiler fl w =
     (case measure_loop run compiler fl (nat num_runs) [] [] w of
        (Inl e, w') \<Rightarrow> (Inl e, w')
      | (Inr (compile_times, run_times), w') \<Rightarrow>
          (case py_average py_sum compile_times of
             Inl e \<Rightarrow> (Inl e, w')
           | Inr avg_compile_time \<Rightarrow>
               (case py_average py_sum run_times of
                  Inl e \<Rightarrow> (Inl e, w')
                | Inr avg_run_time \<Rightarrow> (Inr (avg_compile_time, avg_run_time), w'))))"

section \<open>Recording a measurement\<close>

text \<open>\<^verbatim>\<open>" ".join(flags)\<close>\<close>

fun join_flags :: "string list \<Rightarrow> string" where
  "join_flags [] = []"
| "join_flags [x] = x"
| "join_flags (x # y # ys) = x @ '' '' @ join_flags (y # ys)"

text \<open>
  \<^verbatim>\<open>df.groupby('timestamp')\<close>: rows with a missing key belong to no group, and the
  groups come out sorted by key (\<^verbatim>\<open>sort=True\<close> is the default). The keys are
  strings and compare as in Python, character by character. Within a group the rows keep
  the order of the DataFrame.
\<close>

definition group_keys :: "row list \<Rightarrow> string list" where
  "group_keys df = sort (remdups (List.map_filter timestamp df))"

definition group_rows :: "string \<Rightarrow> row list \<Rightarrow> row list" where
  "group_rows k df = filter (\<lambda>r. timestamp r = Some k) df"

text \<open>
  \<^verbatim>\<open>.first()\<close> of a group: the first value of the column that is not missing, and
  the missing value when the group has none.
\<close>

fun first_valid :: "'a option list \<Rightarrow> 'a option" where
  "first_valid [] = None"
| "first_valid (None # cs) = first_valid cs"
| "first_valid (Some v # cs) = Some v"

text \<open>
  The mean of a group of \<^verbatim>\<open>groupby(...).mean()\<close>, over the reals. pandas computes
  it in float64; on a group of one row, and wherever the sum and the quotient are
  doubles, it is the same number.
\<close>

definition mean :: "real list \<Rightarrow> real" where
  "mean xs = sum_list xs / real (length xs)"

definition numeric_grouped :: "row list \<Rightarrow> (string \<times> real \<times> real) list" where
  "numeric_grouped df =
     map (\<lambda>k. (k, mean (map compile_time (group_rows k df)),
                  mean (map run_time (group_rows k df))))
       (group_keys df)"

definition non_numeric_grouped :: "row list \<Rightarrow> (string \<times> string option) list" where
  "non_numeric_grouped df =
     map (\<lambda>k. (k, first_valid (map flags (group_rows k df)))) (group_keys df)"

text \<open>
  \<^verbatim>\<open>pd.merge(left, right, on='timestamp')\<close>: the inner join, in the order of the left
  table, one row for each pair of rows with the same key.
\<close>

definition merge ::
  "(string \<times> real \<times> real) list \<Rightarrow> (string \<times> string option) list \<Rightarrow> row list" where
  "merge left right =
     concat (map (\<lambda>(k, c, r).
        map (\<lambda>(k', f). \<lparr>timestamp = Some k, compile_time = c, run_time = r, flags = f\<rparr>)
          (filter (\<lambda>(k', f). k' = k) right)) left)"

text \<open>
  \<^verbatim>\<open>record_performance\<close>. \<open>now\<close> is the string
  \<^verbatim>\<open>datetime.now().strftime('%Y-%m-%d %H:%M')\<close> that the call reads from the clock.
  The function returns the grouped DataFrame and the file system with the file rewritten.
\<close>

definition new_entry :: "string \<Rightarrow> real \<Rightarrow> real \<Rightarrow> string list \<Rightarrow> row" where
  "new_entry now ctime rtime fl =
     \<lparr>timestamp = Some now, compile_time = ctime, run_time = rtime,
      flags = Some (join_flags fl)\<rparr>"

definition record_performance ::
  "string \<Rightarrow> real \<Rightarrow> real \<Rightarrow> string list \<Rightarrow> filesystem \<Rightarrow> row list \<times> filesystem" where
  "record_performance now ctime rtime fl fs =
     (let baseline_df = load_baseline_data fs BASELINE_CSV;
          baseline_df = baseline_df @ [new_entry now ctime rtime fl];
          grouped_df = merge (numeric_grouped baseline_df) (non_numeric_grouped baseline_df)
      in (grouped_df, save_baseline_data grouped_df BASELINE_CSV fs))"

section \<open>Auxiliary definitions\<close>

text \<open>
  The row that grouping and merging produce for the key \<open>k\<close>: the means of the two
  numeric columns over the rows of the group, and the first flags cell that is present.
\<close>

definition grouped_row :: "row list \<Rightarrow> string \<Rightarrow> row" where
  "grouped_row df k =
     \<lparr>timestamp = Some k,
      compile_time = mean (map compile_time (group_rows k df)),
      run_time = mean (map run_time (group_rows k df)),
      flags = first_valid (map flags (group_rows k df))\<rparr>"



section \<open>Example inputs\<close>

text \<open>A float format for the examples: it prints no digits.\<close>

definition blank :: "float64 \<Rightarrow> string" where
  "blank x = []"

text \<open>
  A summation for the examples: from left to right, every addition rounded. The
  examples use it on lists whose partial sums are all doubles, so that every order of
  the additions, compensated or not, returns the same float.
\<close>

definition left_sum :: "real list \<Rightarrow> float64" where
  "left_sum xs = foldl float_add (Finite 0) (map Finite xs)"

text \<open>A runner under which every call succeeds and takes as many seconds as calls were made before it.\<close>

definition clock_runner :: runner where
  "clock_runner w cmd = Inr (real (length w))"


text \<open>A history of two rows whose averages are 10 and 10.\<close>

definition ten_baseline :: filesystem where
  "ten_baseline =
     [BASELINE_CSV \<mapsto>
        [\<lparr>csv_timestamp = ''2025-01-01 10:00'', csv_compile_time = 9, csv_run_time = 8,
          csv_flags = ''-O2''\<rparr>,
         \<lparr>csv_timestamp = ''2025-01-01 10:05'', csv_compile_time = 11, csv_run_time = 12,
          csv_flags = ''-O2''\<rparr>]]"

text \<open>
  A history of one row whose compile time is the double \<open>1.7908460000000346\<close>. For
  the new compile time \<open>1.8803883000000363\<close>, the double
  \<open>2117129011798001 / 2 ^ 50\<close>, the quotient of the reals is above \<open>1 / 20\<close> and the
  float64 quotient is the double \<open>0.05\<close> itself.
\<close>

definition edge_baseline :: filesystem where
  "edge_baseline =
     [BASELINE_CSV \<mapsto>
        [\<lparr>csv_timestamp = ''2025-01-01 10:00'',
          csv_compile_time = 8065253378278099 / 4503599627370496, csv_run_time = 2,
          csv_flags = ''-O2''\<rparr>]]"


text \<open>A file of three rows, the first with a timestamp that is no date.\<close>

definition corrupt_baseline :: filesystem where
  "corrupt_baseline =
     [BASELINE_CSV \<mapsto>
        [\<lparr>csv_timestamp = ''not a timestamp'', csv_compile_time = 1, csv_run_time = 2,
          csv_flags = ''-O2''\<rparr>,
         \<lparr>csv_timestamp = ''2025-01-01 10:00'', csv_compile_time = 3, csv_run_time = 4,
          csv_flags = ''-O2''\<rparr>,
         \<lparr>csv_timestamp = ''2025-01-01 10:05'', csv_compile_time = 5, csv_run_time = 6,
          csv_flags = ''-O0''\<rparr>]]"



section \<open>Properties of float64 arithmetic\<close>

lemma pow2_pos: "0 < pow2 e"
  by (simp add: pow2_def)

lemma pow2_powr: "pow2 e = 2 powr real_of_int e"
proof (cases "0 \<le> e")
  case True
  then show ?thesis by (simp add: pow2_def powr_realpow [symmetric])
next
  case False
  then have "2 powr real_of_int e = 1 / 2 powr real_of_int (- e)"
    by (simp add: powr_minus_divide)
  also have "\<dots> = 1 / 2 ^ nat (- e)"
    using False by (simp add: powr_realpow [symmetric])
  finally show ?thesis using False by (simp add: pow2_def)
qed

lemma floor_log2:
  assumes "pow2 e \<le> x" and "x < pow2 (e + 1)"
  shows "\<lfloor>log 2 x\<rfloor> = e"
proof -
  have x: "0 < x" using assms(1) pow2_pos [of e] by linarith
  have "real_of_int e \<le> log 2 x"
    using assms(1) x by (simp add: pow2_powr le_log_iff)
  moreover have "log 2 x < real_of_int e + 1"
    using assms(2) x by (simp add: pow2_powr log_less_iff)
  ultimately show ?thesis by linarith
qed

text \<open>Rounding a number whose exponent is known.\<close>

lemma round64_eval:
  assumes "pow2 e \<le> \<bar>x\<bar>" and "\<bar>x\<bar> < pow2 (e + 1)"
  shows "round64 x = round_at (max e (- 1022)) x"
proof -
  have "x \<noteq> 0" using assms(1) pow2_pos [of e] by auto
  then show ?thesis by (simp add: round64_def floor_log2 [OF assms])
qed

lemmas round_defs = pow2_def round_at_def round_half_even_def Let_def

text \<open>
  The roundings that the examples need. Small integers and a quarter are doubles;
  a tenth, a fortieth and five thirds are not; the last three are the average, the
  difference and the quotient of the example at the threshold.
\<close>

lemma round64_one: "round64 1 = Finite 1"
  by (subst round64_eval [of 0]) (simp_all add: round_defs)

lemma round64_two: "round64 2 = Finite 2"
  by (subst round64_eval [of 1]) (simp_all add: round_defs)

lemma round64_three: "round64 3 = Finite 3"
  by (subst round64_eval [of 1]) (simp_all add: round_defs)

lemma round64_four: "round64 4 = Finite 4"
  by (subst round64_eval [of 2]) (simp_all add: round_defs)

lemma round64_five: "round64 5 = Finite 5"
  by (subst round64_eval [of 2]) (simp_all add: round_defs)

lemma round64_six: "round64 6 = Finite 6"
  by (subst round64_eval [of 2]) (simp_all add: round_defs)

lemma round64_eight: "round64 8 = Finite 8"
  by (subst round64_eval [of 3]) (simp_all add: round_defs)

lemma round64_nine: "round64 9 = Finite 9"
  by (subst round64_eval [of 3]) (simp_all add: round_defs)

lemma round64_ten: "round64 10 = Finite 10"
  by (subst round64_eval [of 3]) (simp_all add: round_defs)

lemma round64_twenty: "round64 20 = Finite 20"
  by (subst round64_eval [of 4]) (simp_all add: round_defs)

lemma round64_quarter: "round64 (1 / 4) = Finite (1 / 4)"
  by (subst round64_eval [of "- 2"]) (simp_all add: round_defs)

lemma round64_tenth: "round64 (1 / 10) = Finite (3602879701896397 / 36028797018963968)"
  by (subst round64_eval [of "- 4"]) (simp_all add: round_defs)

lemma round64_fortieth: "round64 (1 / 40) = Finite (3602879701896397 / 144115188075855872)"
  by (subst round64_eval [of "- 6"]) (simp_all add: round_defs)

lemma round64_five_thirds: "round64 (5 / 3) = Finite (7505999378950827 / 4503599627370496)"
  by (subst round64_eval [of 0]) (simp_all add: round_defs)

lemma round64_edge_avg: "round64 (8065253378278099 / 4503599627370496) = Finite (8065253378278099 / 4503599627370496)"
  by (subst round64_eval [of 0]) (simp_all add: round_defs)

lemma round64_edge_diff: "round64 (403262668913905 / 4503599627370496) = Finite (403262668913905 / 4503599627370496)"
  by (subst round64_eval [of "- 4"]) (simp_all add: round_defs)

lemma round64_edge_quotient: "round64 (403262668913905 / 8065253378278099) = Finite (3602879701896397 / 72057594037927936)"
  by (subst round64_eval [of "- 5"]) (simp_all add: round_defs)

lemmas round64_examples = round64_one round64_two round64_three round64_four round64_five round64_six round64_eight round64_nine round64_ten round64_twenty round64_quarter round64_tenth round64_fortieth round64_five_thirds round64_edge_avg round64_edge_diff round64_edge_quotient

lemmas float_defs = float_add_def float_sub_def float_div_def fgt_def left_sum_def



section \<open>Properties of regression detection\<close>

text \<open>
  C4. On the empty history, whether the file is absent or holds no row,
  \<^verbatim>\<open>detect_regression\<close> returns \<open>False\<close> with the explanation
  "No baseline data exists yet."; it is a value of the function, not an exception.
\<close>

theorem detect_empty_history:
  "load_baseline_data fs p = [] \<Longrightarrow>
     detect_regression np_sum fmt thr nc nr p fs
       = ((False, ''No baseline data exists yet.''), fs)"
  by (simp add: detect_regression_def)

theorem detect_empty_history_witness:
  "load_baseline_data Map.empty BASELINE_CSV = [] \<and>
   load_baseline_data [BASELINE_CSV \<mapsto> []] BASELINE_CSV = [] \<and>
   detect_regression left_sum blank REGRESSION_THRESHOLD_RATIO (Finite 1) (Finite 2)
       BASELINE_CSV Map.empty
     = ((False, ''No baseline data exists yet.''), Map.empty) \<and>
   detect_regression left_sum blank REGRESSION_THRESHOLD_RATIO (Finite 1) (Finite 2)
       BASELINE_CSV [BASELINE_CSV \<mapsto> []]
     = ((False, ''No baseline data exists yet.''), [BASELINE_CSV \<mapsto> []])"
  using detect_empty_history
          [of Map.empty BASELINE_CSV left_sum blank REGRESSION_THRESHOLD_RATIO
              "Finite 1" "Finite 2"]
    detect_empty_history
          [of "[BASELINE_CSV \<mapsto> []]" BASELINE_CSV left_sum blank REGRESSION_THRESHOLD_RATIO
              "Finite 1" "Finite 2"]
  by (simp add: load_baseline_data_def)

text \<open>
  C10. \<^verbatim>\<open>detect_regression\<close> leaves the file system as it found it, for every
  history and every pair of new values, so a later load of any file returns what it
  returned before the call.
\<close>

theorem detect_reads_only:
  "snd (detect_regression np_sum fmt thr nc nr p fs) = fs \<and>
   load_baseline_data (snd (detect_regression np_sum fmt thr nc nr p fs)) q
     = load_baseline_data fs q"
  by (simp add: detect_regression_def Let_def)

text \<open>
  C1. On a non-empty history the verdict is true exactly when the quotient
  \<open>(new - avg) / avg\<close> exceeds the threshold strictly for the compile time or for the
  run time. Each \<open>avg\<close> is the mean of its column over all rows of the history: the
  sum of the column divided by the number of rows. The subtraction, the divisions and
  the comparison are those of float64, as the code computes them.
\<close>

theorem detect_verdict:
  assumes "load_baseline_data fs p = df" and "df \<noteq> []"
    and "avg_compile = float_div (np_sum (map compile_time df)) (Finite (real (length df)))"
    and "avg_run = float_div (np_sum (map run_time df)) (Finite (real (length df)))"
  shows "fst (fst (detect_regression np_sum fmt thr nc nr p fs))
           = (fgt (float_div (float_sub nc avg_compile) avg_compile) thr
              \<or> fgt (float_div (float_sub nr avg_run) avg_run) thr)"
  using assms by (simp add: detect_regression_def Let_def series_mean_def)

lemma ten_baseline_averages:
  "float_div (left_sum (map compile_time (load_baseline_data ten_baseline BASELINE_CSV)))
     (Finite (real (length (load_baseline_data ten_baseline BASELINE_CSV)))) = Finite 10"
  "float_div (left_sum (map run_time (load_baseline_data ten_baseline BASELINE_CSV)))
     (Finite (real (length (load_baseline_data ten_baseline BASELINE_CSV)))) = Finite 10"
  by (simp_all add: ten_baseline_def load_baseline_data_def read_row_def float_defs
      round64_examples)

text \<open>
  With averages 10 and 10 and the threshold 0.05: the new values 11 and 10.25 are a
  regression (the compile time is 10 percent above its average), the new values 10.25
  and 10.25 are none (2.5 percent).
\<close>

theorem detect_verdict_witness:
  "load_baseline_data ten_baseline BASELINE_CSV \<noteq> [] \<and>
   fst (fst (detect_regression left_sum blank REGRESSION_THRESHOLD_RATIO
               (Finite 11) (Finite (41 / 4)) BASELINE_CSV ten_baseline)) = True \<and>
   fst (fst (detect_regression left_sum blank REGRESSION_THRESHOLD_RATIO
               (Finite (41 / 4)) (Finite (41 / 4)) BASELINE_CSV ten_baseline)) = False"
proof -
  let ?df = "load_baseline_data ten_baseline BASELINE_CSV"
  have ne: "?df \<noteq> []"
    by (simp add: ten_baseline_def load_baseline_data_def)
  have up: "fgt (float_div (float_sub (Finite 11) (Finite 10)) (Finite 10))
              REGRESSION_THRESHOLD_RATIO"
    by (simp add: float_defs round64_examples REGRESSION_THRESHOLD_RATIO_def)
  have low: "\<not> fgt (float_div (float_sub (Finite (41 / 4)) (Finite 10)) (Finite 10))
                REGRESSION_THRESHOLD_RATIO"
    by (simp add: float_defs round64_examples REGRESSION_THRESHOLD_RATIO_def)
  show ?thesis
    using ne up low
      detect_verdict [OF refl ne ten_baseline_averages [symmetric],
        of blank REGRESSION_THRESHOLD_RATIO "Finite 11" "Finite (41 / 4)"]
      detect_verdict [OF refl ne ten_baseline_averages [symmetric],
        of blank REGRESSION_THRESHOLD_RATIO "Finite (41 / 4)" "Finite (41 / 4)"]
    by simp
qed

text \<open>
  The strict inequality at the threshold is that of the floats. For the average
  \<open>1.7908460000000346\<close> and the new compile time \<open>1.8803883000000363\<close> the quotient
  of the reals is above the threshold, the float64 quotient is the threshold itself,
  and the verdict is \<open>False\<close>.
\<close>

lemma detect_quotient_rounds_to_threshold:
  "REGRESSION_THRESHOLD_RATIO
     < (2117129011798001 / 1125899906842624 - 8065253378278099 / 4503599627370496)
         / (8065253378278099 / 4503599627370496) \<and>
   fst (fst (detect_regression left_sum blank REGRESSION_THRESHOLD_RATIO
               (Finite (2117129011798001 / 1125899906842624)) (Finite 2)
               BASELINE_CSV edge_baseline)) = False"
  by (simp add: detect_regression_def series_mean_def edge_baseline_def load_baseline_data_def
      read_row_def float_defs round64_examples REGRESSION_THRESHOLD_RATIO_def Let_def)




section \<open>Properties of the measuring loop\<close>









text \<open>
  C8, as the claim states it, fails: the code has no check of the number of runs and no
  error of its own for it. With zero runs the loop body is never entered and the
  averaging of the empty list raises ZeroDivisionError.
\<close>

theorem measure_performance_no_runs_counterexample:
  "measure_performance left_sum clock_runner 0 COMPILER BASELINE_FLAGS []
     = (Inl ZeroDivisionError, [])"
  by (simp add: measure_performance_def py_average_def)

text \<open>
  C8, amended. For every \<open>n < 1\<close>, \<^verbatim>\<open>measure_performance\<close> fails with
  ZeroDivisionError, and it has made no call by then: the world is the one it started in.
\<close>

theorem measure_performance_no_runs:
  "n < 1 \<Longrightarrow> measure_performance py_sum run n compiler fl w = (Inl ZeroDivisionError, w)"
  by (simp add: measure_performance_def py_average_def)

theorem measure_performance_no_runs_witness:
  "(-2::int) < 1 \<and>
   measure_performance left_sum clock_runner (-2) COMPILER REGRESSION_FLAGS [[''make'']]
     = (Inl ZeroDivisionError, [[''make'']])"
  using measure_performance_no_runs
          [of "-2" left_sum clock_runner COMPILER REGRESSION_FLAGS "[[''make'']]"]
  by simp

section \<open>Properties of loading\<close>

text \<open>
  C7, as the claim states it, fails: \<^verbatim>\<open>load_baseline_data\<close> returns the three rows
  of a file whose first row has a timestamp that is no date, that row included.
\<close>

theorem load_drops_nothing_counterexample:
  "load_baseline_data corrupt_baseline BASELINE_CSV =
     [\<lparr>timestamp = Some ''not a timestamp'', compile_time = 1, run_time = 2,
       flags = Some ''-O2''\<rparr>,
      \<lparr>timestamp = Some ''2025-01-01 10:00'', compile_time = 3, run_time = 4,
       flags = Some ''-O2''\<rparr>,
      \<lparr>timestamp = Some ''2025-01-01 10:05'', compile_time = 5, run_time = 6,
       flags = Some ''-O0''\<rparr>]"
  by (simp add: corrupt_baseline_def load_baseline_data_def read_row_def read_cell_def
      na_values_def)

text \<open>
  C7, amended. \<^verbatim>\<open>load_baseline_data\<close> succeeds on every file and returns all its
  rows, one for each row of the file and in the order of the file, whatever their
  timestamps: it drops none.
\<close>

theorem load_keeps_every_row:
  assumes "fs p = Some rows"
  shows "load_baseline_data fs p = map read_row rows \<and>
         length (load_baseline_data fs p) = length rows"
  using assms by (simp add: load_baseline_data_def)

theorem load_keeps_every_row_witness:
  "corrupt_baseline BASELINE_CSV \<noteq> None \<and>
   length (load_baseline_data corrupt_baseline BASELINE_CSV) = 3 \<and>
   map timestamp (load_baseline_data corrupt_baseline BASELINE_CSV)
     = [Some ''not a timestamp'', Some ''2025-01-01 10:00'', Some ''2025-01-01 10:05'']"
proof -
  let ?rows = "[\<lparr>csv_timestamp = ''not a timestamp'', csv_compile_time = 1, csv_run_time = 2,
          csv_flags = ''-O2''\<rparr>,
         \<lparr>csv_timestamp = ''2025-01-01 10:00'', csv_compile_time = 3, csv_run_time = 4,
          csv_flags = ''-O2''\<rparr>,
         \<lparr>csv_timestamp = ''2025-01-01 10:05'', csv_compile_time = 5, csv_run_time = 6,
          csv_flags = ''-O0''\<rparr>]"
  have f: "corrupt_baseline BASELINE_CSV = Some ?rows" by (simp add: corrupt_baseline_def)
  show ?thesis
    using load_keeps_every_row [of corrupt_baseline BASELINE_CSV ?rows, OF f] f
    by (simp add: read_row_def read_cell_def na_values_def)
qed

section \<open>Properties of recording\<close>

subsection \<open>Grouping and merging\<close>


lemma set_map_filter_Some: "set (List.map_filter f xs) = {k. Some k \<in> f ` set xs}"
  by (induction xs) (auto split: option.splits)

lemma set_group_keys: "set (group_keys df) = {k. Some k \<in> timestamp ` set df}"
  by (simp add: group_keys_def set_map_filter_Some)

lemma distinct_group_keys: "distinct (group_keys df)"
  by (simp add: group_keys_def)

lemma sorted_group_keys: "sorted (group_keys df)"
  by (simp add: group_keys_def)

lemma filter_key_unique:
  "distinct ks \<Longrightarrow> k \<in> set ks \<Longrightarrow>
     filter (\<lambda>(k', f). k' = k) (map (\<lambda>k. (k, g k)) ks) = [(k, g k)]"
  by (induction ks) (auto simp: filter_empty_conv)

lemma concat_map_singleton:
  "(\<And>k. k \<in> set ks \<Longrightarrow> F k = [G k]) \<Longrightarrow> concat (map F ks) = map G ks"
  by (induction ks) auto

text \<open>The two grouped tables have the same keys, each once, so the join pairs them up.\<close>

lemma merge_grouped:
  "merge (numeric_grouped df) (non_numeric_grouped df) = map (grouped_row df) (group_keys df)"
proof -
  let ?ks = "group_keys df"
  have "concat (map (\<lambda>k. map (\<lambda>(k', f). \<lparr>timestamp = Some k,
            compile_time = mean (map compile_time (group_rows k df)),
            run_time = mean (map run_time (group_rows k df)), flags = f\<rparr>)
          (filter (\<lambda>(k', f). k' = k) (non_numeric_grouped df))) ?ks)
        = map (grouped_row df) ?ks"
    by (rule concat_map_singleton)
       (simp add: non_numeric_grouped_def filter_key_unique distinct_group_keys grouped_row_def)
  then show ?thesis
    by (simp add: merge_def numeric_grouped_def comp_def)
qed

lemma record_performance_rows:
  "fst (record_performance now c r fl fs) =
     map (grouped_row (load_baseline_data fs BASELINE_CSV @ [new_entry now c r fl]))
       (group_keys (load_baseline_data fs BASELINE_CSV @ [new_entry now c r fl]))"
  by (simp add: record_performance_def Let_def merge_grouped)

lemma record_performance_saved:
  "snd (record_performance now c r fl fs) =
     fs(BASELINE_CSV \<mapsto> map write_row (fst (record_performance now c r fl fs)))"
  by (simp add: record_performance_def Let_def save_baseline_data_def)

lemma first_valid_hd: "cs \<noteq> [] \<Longrightarrow> hd cs \<noteq> None \<Longrightarrow> first_valid cs = hd cs"
  by (cases cs) auto


lemma group_rows_nonempty: "k \<in> set (group_keys df) \<Longrightarrow> group_rows k df \<noteq> []"
  by (auto simp: set_group_keys group_rows_def filter_empty_conv)


lemmas eval_defs = record_performance_def load_baseline_data_def read_row_def read_cell_def
  na_values_def new_entry_def Let_def merge_def numeric_grouped_def non_numeric_grouped_def
  group_keys_def group_rows_def mean_def save_baseline_data_def write_row_def write_cell_def

subsection \<open>One row for each timestamp\<close>

text \<open>
  What one call of \<^verbatim>\<open>record_performance\<close> returns and stores, in terms of the rows
  it groups (the loaded rows followed by the new entry): no two rows have the same
  timestamp, every timestamp that is present among the grouped rows has its row, and a
  row holds the means of the numeric cells of its group (over the reals, as the model
  takes them) and the first flags cell of the group that is present.
\<close>

lemma record_groups_rows:
  assumes df: "df = load_baseline_data fs BASELINE_CSV @ [new_entry now c r fl]"
    and rec: "record_performance now c r fl fs = (h, fs')"
  shows "distinct (map timestamp h) \<and>
         (\<forall>x \<in> set df. timestamp x \<noteq> None \<longrightarrow> timestamp x \<in> timestamp ` set h) \<and>
         (\<forall>y \<in> set h. \<exists>k. timestamp y = Some k \<and>
            (let g = filter (\<lambda>x. timestamp x = Some k) df in
               g \<noteq> [] \<and>
               compile_time y = sum_list (map compile_time g) / real (length g) \<and>
               run_time y = sum_list (map run_time g) / real (length g) \<and>
               flags y = first_valid (map flags g) \<and>
               (flags (hd g) \<noteq> None \<longrightarrow> flags y = flags (hd g)))) \<and>
         fs' BASELINE_CSV = Some (map write_row h) \<and>
         distinct (map csv_timestamp (map write_row h))"
proof -
  have h: "h = map (grouped_row df) (group_keys df)"
    using rec record_performance_rows [of now c r fl fs] df by simp
  have ts: "map timestamp h = map Some (group_keys df)"
    by (simp add: h grouped_row_def comp_def)
  have d: "distinct (map timestamp h)"
    by (simp add: ts distinct_map distinct_group_keys)
  have keys: "\<forall>x \<in> set df. timestamp x \<noteq> None \<longrightarrow> timestamp x \<in> timestamp ` set h"
  proof (intro ballI impI)
    fix x assume "x \<in> set df" "timestamp x \<noteq> None"
    then obtain k where "timestamp x = Some k" "k \<in> set (group_keys df)"
      by (force simp: set_group_keys)
    then have "timestamp x \<in> set (map timestamp h)"
      by (simp add: ts)
    then show "timestamp x \<in> timestamp ` set h" by simp
  qed
  have rows: "\<forall>y \<in> set h. \<exists>k. timestamp y = Some k \<and>
            (let g = filter (\<lambda>x. timestamp x = Some k) df in
               g \<noteq> [] \<and>
               compile_time y = sum_list (map compile_time g) / real (length g) \<and>
               run_time y = sum_list (map run_time g) / real (length g) \<and>
               flags y = first_valid (map flags g) \<and>
               (flags (hd g) \<noteq> None \<longrightarrow> flags y = flags (hd g)))"
  proof
    fix y assume "y \<in> set h"
    then obtain k where k: "k \<in> set (group_keys df)" and y: "y = grouped_row df k"
      by (auto simp: h)
    have ne: "group_rows k df \<noteq> []" using k by (rule group_rows_nonempty)
    have "flags (hd (group_rows k df)) \<noteq> None \<longrightarrow>
            first_valid (map flags (group_rows k df)) = flags (hd (group_rows k df))"
      using ne first_valid_hd [of "map flags (group_rows k df)"] by (simp add: hd_map)
    then show "\<exists>k. timestamp y = Some k \<and>
            (let g = filter (\<lambda>x. timestamp x = Some k) df in
               g \<noteq> [] \<and>
               compile_time y = sum_list (map compile_time g) / real (length g) \<and>
               run_time y = sum_list (map run_time g) / real (length g) \<and>
               flags y = first_valid (map flags g) \<and>
               (flags (hd g) \<noteq> None \<longrightarrow> flags y = flags (hd g)))"
      using ne
      by (intro exI [of _ k]) (simp add: y grouped_row_def mean_def group_rows_def Let_def)
  qed
  have saved: "fs' BASELINE_CSV = Some (map write_row h)"
    using rec record_performance_saved [of now c r fl fs] by simp
  have "map csv_timestamp (map write_row h) = group_keys df"
    by (simp add: h write_row_def grouped_row_def write_cell_def comp_def)
  then have dc: "distinct (map csv_timestamp (map write_row h))"
    by (simp add: distinct_group_keys)
  show ?thesis using d keys rows saved dc by blast
qed

text \<open>
  C5. The claim holds but for one case, in which the flags that survive a collision
  are not the first contributing value. A measurement recorded with the empty list of
  flags is written with an empty flags cell; \<^verbatim>\<open>read_csv\<close> reads that cell back as
  missing and \<^verbatim>\<open>groupby(...).first()\<close> skips it, so a second measurement in the
  same minute gives its own flags to the merged row. Recording \<open>(1, 2, [])\<close> and then
  \<open>(3, 4, ["-O0"])\<close> under one timestamp, starting without a file, leaves one row with
  the means \<open>2\<close> and \<open>3\<close> and the flags \<open>-O0\<close>, where the first contributing value
  is the empty string.
\<close>

theorem record_empty_flags_lost:
  "fst (record_performance ''2025-01-01 10:00'' 1 2 [] Map.empty) =
     [\<lparr>timestamp = Some ''2025-01-01 10:00'', compile_time = 1, run_time = 2,
       flags = Some []\<rparr>] \<and>
   load_baseline_data (snd (record_performance ''2025-01-01 10:00'' 1 2 [] Map.empty))
       BASELINE_CSV =
     [\<lparr>timestamp = Some ''2025-01-01 10:00'', compile_time = 1, run_time = 2,
       flags = None\<rparr>] \<and>
   fst (record_performance ''2025-01-01 10:00'' 3 4 [''-O0'']
          (snd (record_performance ''2025-01-01 10:00'' 1 2 [] Map.empty))) =
     [\<lparr>timestamp = Some ''2025-01-01 10:00'', compile_time = 2, run_time = 3,
       flags = Some ''-O0''\<rparr>]"
  by (simp add: eval_defs)

subsection \<open>The order of the rows\<close>






lemma loaded_key_not_na:
  assumes "Some k \<in> timestamp ` set (load_baseline_data fs p)"
  shows "k \<notin> set na_values"
proof -
  from assms obtain x where "x \<in> set (load_baseline_data fs p)" "timestamp x = Some k"
    by (auto simp: image_iff)
  then show ?thesis
    by (auto simp: load_baseline_data_def read_row_def read_cell_def
        split: option.splits if_splits)
qed

text \<open>
  A file that the function wrote under a timestamp that is no NA token is read back
  with every timestamp present, in strictly ascending order.
\<close>

lemma record_store_sorted:
  assumes now: "now \<notin> set na_values"
    and rec: "record_performance now c r fl fs = (h, fs')"
  shows "\<exists>ks. map timestamp (load_baseline_data fs' BASELINE_CSV) = map Some ks
              \<and> sorted_wrt (<) ks"
proof -
  let ?dfn = "load_baseline_data fs BASELINE_CSV @ [new_entry now c r fl]"
  have h: "h = map (grouped_row ?dfn) (group_keys ?dfn)"
    using rec record_performance_rows [of now c r fl fs] by simp
  have fs': "fs' = fs(BASELINE_CSV \<mapsto> map write_row h)"
    using rec record_performance_saved [of now c r fl fs] by simp
  have ok: "read_cell k = Some k" if "k \<in> set (group_keys ?dfn)" for k
  proof -
    have "Some k \<in> timestamp ` set (load_baseline_data fs BASELINE_CSV) \<or> k = now"
      using that by (auto simp: set_group_keys new_entry_def)
    then have "k \<notin> set na_values"
      using now loaded_key_not_na by blast
    then show ?thesis by (simp add: read_cell_def)
  qed
  have "map timestamp (load_baseline_data fs' BASELINE_CSV)
          = map read_cell (group_keys ?dfn)"
    by (simp add: fs' h load_baseline_data_def read_row_def write_row_def grouped_row_def
        write_cell_def comp_def)
  also have "\<dots> = map Some (group_keys ?dfn)"
    by (rule map_cong) (simp_all add: ok)
  finally have "map timestamp (load_baseline_data fs' BASELINE_CSV) = map Some (group_keys ?dfn)" .
  moreover have "sorted_wrt (<) (group_keys ?dfn)"
    by (simp add: strict_sorted_iff sorted_group_keys distinct_group_keys)
  ultimately show ?thesis by blast
qed




end
